theory Spec2Isabelle
  imports Main "HOL-Library.Multiset"
begin

section \<open>Tutorial notebooks for the LSST Science Pipelines\<close>

text \<open>
  The repository is a set of Jupyter notebooks. Their code cells call the LSST Science
  Pipelines (Butler, \<open>lsst.geom\<close>, \<open>lsst.afw.display\<close>), a TAP service, pandas and
  plotting libraries. The notebooks define five functions of their own
  (\<open>cutout_coadd\<close>, twice, \<open>createRGB\<close>, \<open>dataIdToString\<close>, \<open>sort_dataframe\<close>,
  \<open>remove_figure\<close>); everything else is a straight sequence of cells.

  External calls are parameters of the model (fields of a record of functions) and
  return \<open>'e + 'a\<close>, where \<open>Inl e\<close> is an exception raised by the library.
\<close>

subsection \<open>Exceptions\<close>

text \<open>
  \<open>External e\<close> is an exception raised inside a library call; the other constructors are
  the exceptions the notebooks' own statements raise.
\<close>

datatype 'e py_error =
  External 'e | AssertionError | IndexError | KeyError | ValueError | FileNotFoundError

definition and_then :: "'x + 'a \<Rightarrow> ('a \<Rightarrow> 'x + 'b) \<Rightarrow> 'x + 'b" where
  "and_then r f = (case r of Inl e \<Rightarrow> Inl e | Inr v \<Rightarrow> f v)"

definition call :: "'e + 'a \<Rightarrow> 'e py_error + 'a" where
  "call r = (case r of Inl e \<Rightarrow> Inl (External e) | Inr v \<Rightarrow> Inr v)"

subsection \<open>Integer geometry of \<open>lsst.geom\<close>\<close>

text \<open>
  \<open>Point2I\<close>, \<open>Extent2I\<close> and \<open>Box2I\<close> are the integer point, extent and box of
  \<open>lsst.geom\<close> that the notebooks construct. A \<open>Box2I\<close> holds its minimum corner and its
  dimensions in pixels; its maximum corner is inclusive, \<open>minimum + dimensions - 1\<close>. The
  default box is empty; \<open>include\<close> (here \<open>Box2I_include\<close>) grows a box so that it contains a point; the
  constructor from a minimum and an extent makes a box of exactly that extent (an extent of
  zero gives the empty box, a negative one is flipped). The C++ \<open>int\<close> coordinates are
  modelled as unbounded integers.
\<close>

type_synonym Point2I = "int \<times> int"
type_synonym Extent2I = "int \<times> int"

record Box2I =
  minimum :: Point2I
  dimensions :: Extent2I

definition Box2I_default :: Box2I where
  "Box2I_default = \<lparr>minimum = (0, 0), dimensions = (0, 0)\<rparr>"

definition isEmpty :: "Box2I \<Rightarrow> bool" where
  "isEmpty b = (fst (dimensions b) = 0 \<and> snd (dimensions b) = 0)"

definition getMax :: "Box2I \<Rightarrow> Point2I" where
  "getMax b = (fst (minimum b) + fst (dimensions b) - 1, snd (minimum b) + snd (dimensions b) - 1)"

definition getWidth :: "Box2I \<Rightarrow> int" where
  "getWidth b = fst (dimensions b)"

definition getHeight :: "Box2I \<Rightarrow> int" where
  "getHeight b = snd (dimensions b)"


definition include_axis :: "int \<Rightarrow> int \<Rightarrow> int \<Rightarrow> int \<times> int" where
  "include_axis lo hi c = (if c < lo then (c, hi) else if c > hi then (lo, c) else (lo, hi))"

definition Box2I_include :: "Box2I \<Rightarrow> Point2I \<Rightarrow> Box2I" where
  "Box2I_include b p =
     (if isEmpty b then \<lparr>minimum = p, dimensions = (1, 1)\<rparr>
      else let (x0, x1) = include_axis (fst (minimum b)) (fst (getMax b)) (fst p);
               (y0, y1) = include_axis (snd (minimum b)) (snd (getMax b)) (snd p)
           in \<lparr>minimum = (x0, y0), dimensions = (1 + x1 - x0, 1 + y1 - y0)\<rparr>)"

definition flip_axis :: "int \<Rightarrow> int \<Rightarrow> int \<times> int" where
  "flip_axis lo d = (if d < 0 then (lo + (d + 1), - d) else (lo, d))"

definition Box2I_of :: "Point2I \<Rightarrow> Extent2I \<Rightarrow> Box2I" where
  "Box2I_of p d =
     (if fst d = 0 \<or> snd d = 0 then Box2I_default
      else let (x0, w) = flip_axis (fst p) (fst d);
               (y0, h) = flip_axis (snd p) (snd d)
           in \<lparr>minimum = (x0, y0), dimensions = (w, h)\<rparr>)"

subsection \<open>The cutout box of the source-detection notebook\<close>

text \<open>
  \<^verbatim>\<open>
  x_target, y_target = 1700, 2100
  width, height = 400, 400
  xmin, ymin = x_target-width//2, y_target-height//2
  bbox = geom.Box2I()
  bbox.include(geom.Point2I(xmin, ymin))
  bbox.include(geom.Point2I(xmin + width, ymin + height))
  # An alternative way to defined the same cutout region
  # bbox = geom.Box2I(geom.Point2I(xmin, ymin), geom.Extent2I(width, height))
  \<close>
  \<open>bbox_by_include\<close> is the box the cell builds, \<open>bbox_by_extent\<close> the one of the
  commented line.
\<close>

definition bbox_by_include :: "int \<Rightarrow> int \<Rightarrow> int \<Rightarrow> int \<Rightarrow> Box2I" where
  "bbox_by_include xmin ymin width height =
     Box2I_include (Box2I_include Box2I_default (xmin, ymin)) (xmin + width, ymin + height)"

definition bbox_by_extent :: "int \<Rightarrow> int \<Rightarrow> int \<Rightarrow> int \<Rightarrow> Box2I" where
  "bbox_by_extent xmin ymin width height = Box2I_of (xmin, ymin) (width, height)"

definition x_target :: int where "x_target = 1700"
definition y_target :: int where "y_target = 2100"
definition width :: int where "width = 400"
definition height :: int where "height = 400"
definition xmin :: int where "xmin = x_target - width div 2"
definition ymin :: int where "ymin = y_target - height div 2"

definition bbox :: Box2I where
  "bbox = bbox_by_include xmin ymin width height"

definition bbox_alternative :: Box2I where
  "bbox_alternative = bbox_by_extent xmin ymin width height"

subsection \<open>Python values and \<open>str\<close>\<close>

text \<open>
  The values the notebooks put into a \<open>dataId\<close> dictionary are integers and strings. A
  dictionary literal is an association list in the order it is written, which is the order
  \<open>dict.items()\<close> iterates in.
\<close>

datatype pyval = PInt int | PStr string

type_synonym dataId = "(string \<times> pyval) list"







subsection \<open>\<open>dataIdToString\<close> (interactive image notebook)\<close>



definition calexpId :: dataId where
  "calexpId = [(''visit'', PInt 192350), (''detector'', PInt 175), (''band'', PStr ''i'')]"

subsection \<open>\<open>cutout_coadd\<close> (Butler notebook and image-display notebook)\<close>

text \<open>
  The function is defined twice, in \<open>04_Intro_to_Butler.ipynb\<close> and in the image-display
  notebook. Both bodies read:
  \<^verbatim>\<open>
  def cutout_coadd(butler, ra, dec, band='r', datasetType='deepCoadd',
                   skymap=None, cutoutSideLength=51, **kwargs):
      radec = geom.SpherePoint(ra, dec, geom.degrees)
      cutoutSize = geom.ExtentI(cutoutSideLength, cutoutSideLength)
      if skymap is None:
          skymap = butler.get("skyMap")
      # Look up the tract, patch for the RA, Dec
      tractInfo = skymap.findTract(radec)
      patchInfo = tractInfo.findPatch(radec)
      xy = geom.PointI(tractInfo.getWcs().skyToPixel(radec))
      bbox = geom.BoxI(xy - cutoutSize // 2, cutoutSize)
      patch = tractInfo.getSequentialPatchIndex(patchInfo)
      coaddId = {'tract': tractInfo.getId(), 'patch': patch, 'band': band}
      parameters = {'bbox': bbox}
      cutout_image = butler.get(datasetType, parameters=parameters, dataId=coaddId)
      return cutout_image
  \<close>
  The library calls are the fields of \<open>skymap_api\<close> (sky geometry) and of the \<open>butler\<close>
  argument. \<open>skyToPixel\<close> stands for \<open>geom.PointI(tractInfo.getWcs().skyToPixel(radec))\<close>,
  the integer pixel of the sky position. \<open>ExtentI // 2\<close> is Python's floor division on
  each component, \<open>PointI - ExtentI\<close> is componentwise.
\<close>

record ('c, 'sp, 'sm, 'ti, 'pi, 'e) skymap_api =
  SpherePoint :: "'c \<Rightarrow> 'c \<Rightarrow> 'e + 'sp"
  findTract :: "'sm \<Rightarrow> 'sp \<Rightarrow> 'e + 'ti"
  findPatch :: "'ti \<Rightarrow> 'sp \<Rightarrow> 'e + 'pi"
  skyToPixel :: "'ti \<Rightarrow> 'sp \<Rightarrow> 'e + Point2I"
  getSequentialPatchIndex :: "'ti \<Rightarrow> 'pi \<Rightarrow> 'e + int"
  getId :: "'ti \<Rightarrow> 'e + int"

record ('sm, 'img, 'e) butler =
  get_skyMap :: "'e + 'sm"
  get_with_bbox :: "string \<Rightarrow> Box2I \<Rightarrow> dataId \<Rightarrow> 'e + 'img"

definition ExtentI_floordiv :: "Extent2I \<Rightarrow> int \<Rightarrow> Extent2I" where
  "ExtentI_floordiv e k = (fst e div k, snd e div k)"

definition PointI_minus :: "Point2I \<Rightarrow> Extent2I \<Rightarrow> Point2I" where
  "PointI_minus p e = (fst p - fst e, snd p - snd e)"

definition cutout_coadd_butler ::
  "('c, 'sp, 'sm, 'ti, 'pi, 'e) skymap_api \<Rightarrow> ('sm, 'img, 'e) butler \<Rightarrow> 'c \<Rightarrow> 'c \<Rightarrow> string
   \<Rightarrow> string \<Rightarrow> 'sm option \<Rightarrow> int \<Rightarrow> 'e py_error + 'img" where
  "cutout_coadd_butler api butler ra dec band datasetType skymap cutoutSideLength =
     and_then (call (SpherePoint api ra dec)) (\<lambda>radec.
     let cutoutSize = (cutoutSideLength, cutoutSideLength) in
     and_then (case skymap of None \<Rightarrow> call (get_skyMap butler) | Some s \<Rightarrow> Inr s) (\<lambda>skymap.
     and_then (call (findTract api skymap radec)) (\<lambda>tractInfo.
     and_then (call (findPatch api tractInfo radec)) (\<lambda>patchInfo.
     and_then (call (skyToPixel api tractInfo radec)) (\<lambda>xy.
     let bbox = Box2I_of (PointI_minus xy (ExtentI_floordiv cutoutSize 2)) cutoutSize in
     and_then (call (getSequentialPatchIndex api tractInfo patchInfo)) (\<lambda>patch.
     and_then (call (getId api tractInfo)) (\<lambda>tract.
     let coaddId = [(''tract'', PInt tract), (''patch'', PInt patch), (''band'', PStr band)] in
     call (get_with_bbox butler datasetType bbox coaddId))))))))"

definition cutout_coadd_display ::
  "('c, 'sp, 'sm, 'ti, 'pi, 'e) skymap_api \<Rightarrow> ('sm, 'img, 'e) butler \<Rightarrow> 'c \<Rightarrow> 'c \<Rightarrow> string
   \<Rightarrow> string \<Rightarrow> 'sm option \<Rightarrow> int \<Rightarrow> 'e py_error + 'img" where
  "cutout_coadd_display api butler ra dec band datasetType skymap cutoutSideLength =
     and_then (call (SpherePoint api ra dec)) (\<lambda>radec.
     let cutoutSize = (cutoutSideLength, cutoutSideLength) in
     and_then (case skymap of None \<Rightarrow> call (get_skyMap butler) | Some s \<Rightarrow> Inr s) (\<lambda>skymap.
     and_then (call (findTract api skymap radec)) (\<lambda>tractInfo.
     and_then (call (findPatch api tractInfo radec)) (\<lambda>patchInfo.
     and_then (call (skyToPixel api tractInfo radec)) (\<lambda>xy.
     let bbox = Box2I_of (PointI_minus xy (ExtentI_floordiv cutoutSize 2)) cutoutSize in
     and_then (call (getSequentialPatchIndex api tractInfo patchInfo)) (\<lambda>patch.
     and_then (call (getId api tractInfo)) (\<lambda>tract.
     let coaddId = [(''tract'', PInt tract), (''patch'', PInt patch), (''band'', PStr band)] in
     call (get_with_bbox butler datasetType bbox coaddId))))))))"

subsection \<open>\<open>createRGB\<close> (image-display notebook)\<close>

text \<open>
  \<^verbatim>\<open>
  def createRGB(image, bgr="gri", stretch=1, Q=10, scale=None):
      if len(image) == 3:
          bgr = image.filters
      if scale is None:
          r_im = image[bgr[2]].array  # numpy array for the r channel
          g_im = image[bgr[1]].array  # numpy array for the g channel
          b_im = image[bgr[0]].array  # numpy array for the b channel
      else:
          # manually re-scaling the images here
          r_im = image[bgr[2]].array * scale[0]
          g_im = image[bgr[1]].array * scale[1]
          b_im = image[bgr[0]].array * scale[2]
      rgb = make_lupton_rgb(image_r=r_im, image_g=g_im, image_b=b_im,
                            stretch=stretch, Q=Q)
      return rgb
  \<close>
  A multiband image is the list of its bands, each a filter name with its pixel array;
  \<open>len(image)\<close> is the number of bands and \<open>image.filters\<close> their names. \<open>bgr\<close> is a
  sequence of filter names. Arrays and numbers are opaque: \<open>array_times\<close> is numpy's product of
  an array with a number, \<open>make_lupton_rgb\<close> is astropy's.
\<close>

type_synonym 'arr MultibandImage = "(string \<times> 'arr) list"

record ('arr, 'num, 'rgb, 'e) rgb_api =
  array_times :: "'arr \<Rightarrow> 'num \<Rightarrow> 'arr"
  make_lupton_rgb :: "'arr \<Rightarrow> 'arr \<Rightarrow> 'arr \<Rightarrow> 'num \<Rightarrow> 'num \<Rightarrow> 'e + 'rgb"

definition filters :: "'arr MultibandImage \<Rightarrow> string list" where
  "filters img = map fst img"

definition item :: "'a list \<Rightarrow> nat \<Rightarrow> 'e py_error + 'a" where
  "item xs i = (if i < length xs then Inr (xs ! i) else Inl IndexError)"

definition band_array :: "'arr MultibandImage \<Rightarrow> string \<Rightarrow> 'e py_error + 'arr" where
  "band_array img b = (case map_of img b of None \<Rightarrow> Inl KeyError | Some a \<Rightarrow> Inr a)"

definition createRGB ::
  "('arr, 'num, 'rgb, 'e) rgb_api \<Rightarrow> 'arr MultibandImage \<Rightarrow> string list \<Rightarrow> 'num \<Rightarrow> 'num
   \<Rightarrow> 'num list option \<Rightarrow> 'e py_error + 'rgb" where
  "createRGB api img bgr0 stretch Q scale =
     (let bgr = (if length img = 3 then filters img else bgr0) in
      and_then
        (case scale of
           None \<Rightarrow>
             and_then (item bgr 2) (\<lambda>k2. and_then (band_array img k2) (\<lambda>r_im.
             and_then (item bgr 1) (\<lambda>k1. and_then (band_array img k1) (\<lambda>g_im.
             and_then (item bgr 0) (\<lambda>k0. and_then (band_array img k0) (\<lambda>b_im.
             Inr (r_im, g_im, b_im)))))))
         | Some sc \<Rightarrow>
             and_then (item bgr 2) (\<lambda>k2. and_then (band_array img k2) (\<lambda>r.
             and_then (item sc 0) (\<lambda>s0.
             and_then (item bgr 1) (\<lambda>k1. and_then (band_array img k1) (\<lambda>g.
             and_then (item sc 1) (\<lambda>s1.
             and_then (item bgr 0) (\<lambda>k0. and_then (band_array img k0) (\<lambda>b.
             and_then (item sc 2) (\<lambda>s2.
             Inr (array_times api r s0, array_times api g s1, array_times api b s2)))))))))))
        (\<lambda>(r_im, g_im, b_im). call (make_lupton_rgb api r_im g_im b_im stretch Q)))"

subsection \<open>\<open>sort_dataframe\<close> (TAP notebook)\<close>











subsection \<open>Cells that check what a library call returned\<close>

text \<open>
  The TAP notebook (second notebook of \<open>04_Intro_to_Butler.ipynb\<close>):
  \<^verbatim>\<open>
  service = get_tap_service()
  assert service is not None
  assert service.baseurl == "https://data.lsst.cloud/api/tap"
  \<close>
  and
  \<^verbatim>\<open>
  max_rec = 5
  query = "SELECT TOP " + str(max_rec) + \
          " objectId, ra, dec, extendedness, mag_r, magerr_r, good " \
          "FROM dp01_dc2_catalogs.object " \
          "WHERE extendedness = 0 " \
          "AND mag_r < 24 " \
          "ORDER by mag_r DESC"
  results = service.search(query)
  assert len(results) == max_rec
  \<close>
  The interactive image notebook:
  \<^verbatim>\<open>
  calexp = butler.get('calexp', calexpId)
  assert calexp is not None
  \<close>
  No cell of the repository has a \<open>try\<close> statement.
\<close>

record ('svc, 'row, 'e) tap_api =
  get_tap_service :: "'e + 'svc option"
  baseurl :: "'svc \<Rightarrow> string"
  search :: "'svc \<Rightarrow> string \<Rightarrow> 'e + 'row list"


definition max_rec :: nat where
  "max_rec = 5"




subsection \<open>The light-curve notebook reads a file\<close>



subsection \<open>The notebooks as sequences of library calls\<close>

text \<open>
  A notebook runs its code cells from top to bottom. What it does to the world outside is
  the sequence of library calls it makes. The events below are the call statements of the
  live (not commented) code, in the order of the file, under the names of the Python
  variables involved; each event carries the line of the source file it stands for.
  \<^item> \<open>Obtain h\<close>: \<open>h = Butler(repo, ...)\<close> or \<open>h = get_tap_service()\<close>, a client handle;
  \<^item> \<open>Request h m v\<close>: \<open>v = h.m(...)\<close>, a registry query, \<open>getURI\<close> or a synchronous TAP
    \<open>search\<close> through handle \<open>h\<close> (\<open>_\<close> when the result is used without a name);
  \<^item> \<open>ButlerGet h t ks v\<close>: \<open>v = h.get(t, dataId)\<close> where \<open>ks\<close> are the keys of the
    \<open>dataId\<close> dictionary, given as a dictionary or as keyword arguments \<open>**dataId\<close>
    (empty when the call has none);
  \<^item> \<open>JobSubmit\<close>, \<open>JobRun\<close>, \<open>JobWait\<close>, \<open>JobRaiseIfError\<close>, \<open>JobFetch\<close>,
    \<open>RetrieveQuery\<close>, \<open>JobDelete\<close>: the asynchronous TAP job calls;
  \<^item> \<open>ReadFile p v\<close>, \<open>WriteFile v p\<close>: reading and writing a local file;
  \<^item> \<open>RunTask t ins v\<close>: \<open>v = t.run(...)\<close> of a pipeline task, \<open>ins\<close> being the data
    variables among its arguments (for a task that updates its catalogue in place, \<open>v\<close>
    is that catalogue);
  \<^item> \<open>Render vs\<close>: a display or plotting call (\<open>mtv\<close>, \<open>dot\<close>, \<open>plt.plot\<close>,
    \<open>imshow\<close>, bokeh \<open>show\<close>, a holoviews object shown as the value of a cell) drawing
    the variables \<open>vs\<close>;
  \<^item> \<open>Derive v srcs\<close>: an assignment or in-place update that computes \<open>v\<close> locally from
    the variables \<open>srcs\<close>; recorded for the variables that reach a request's handle, a
    task or a display call.
  A loop contributes each call of its body once. \<open>print\<close>, \<open>help\<close>, tables shown as the
  value of a cell, plot settings, display calls that draw no retrieved data, and the
  construction of task and configuration objects leave no event. A call of \<open>cutout_coadd\<close>
  contributes the two \<open>butler.get\<close> calls of its body (no call passes a \<open>skymap\<close>).
\<close>

type_synonym var = string

datatype event =
    Obtain var
  | Derive var "var list"
  | Request var string var
  | ButlerGet var string "string list" var
  | JobSubmit var var
  | JobRun var
  | JobWait var
  | JobRaiseIfError var
  | JobFetch var var
  | RetrieveQuery var var
  | JobDelete var
  | ReadFile string var
  | WriteFile var string
  | RunTask string "var list" var
  | Render "var list"

definition visit_detector_band :: "string list" where
  "visit_detector_band = [''visit'', ''detector'', ''band'']"

definition tract_patch_band :: "string list" where
  "tract_patch_band = [''tract'', ''patch'', ''band'']"

definition cutout_coadd_events :: "var \<Rightarrow> var \<Rightarrow> event list" where
  "cutout_coadd_events butler cutout_image =
     [ButlerGet butler ''skyMap'' [] ''skymap'',
      ButlerGet butler ''deepCoadd'' tract_patch_band cutout_image]"

text \<open>Introduction to the LSST data Butler (\<open>src/04_Intro_to_Butler.ipynb\<close>, first notebook of the file).\<close>

definition nb_intro_butler :: "event list" where
  "nb_intro_butler =
     [Obtain ''butler'',
          \<comment> \<open>120: butler = dafButler.Butler(repo)\<close>
      Derive ''registry'' [''butler''],
          \<comment> \<open>151: registry = butler.registry\<close>
      Request ''registry'' ''queryCollections'' ''c'',
          \<comment> \<open>170: for c in sorted(registry.queryCollections()):\<close>
      Request ''registry'' ''queryCollections'' ''c'',
          \<comment> \<open>200: for c in sorted(registry.queryCollections(collection, flatt...\<close>
      Request ''registry'' ''getCollectionType'' ''_'',
          \<comment> \<open>201: print(c, registry.getCollectionType(c))\<close>
      Obtain ''butler'',
          \<comment> \<open>219: butler = dafButler.Butler(repo, collections=collection)\<close>
      Derive ''registry'' [''butler''],
          \<comment> \<open>220: registry = butler.registry\<close>
      Request ''registry'' ''queryDatasetTypes'' ''x'',
          \<comment> \<open>241: for x in sorted(registry.queryDatasetTypes()):\<close>
      Request ''registry'' ''queryDatasets'' ''datasetRefs'',
          \<comment> \<open>299: datasetRefs = registry.queryDatasets(datasetType='calexp', ...\<close>
      Request ''butler'' ''getURI'' ''_'',
          \<comment> \<open>328: print('File URI: ', butler.getURI(ref))\<close>
      Request ''registry'' ''queryDatasets'' ''datasetRefs'',
          \<comment> \<open>351: datasetRefs = registry.queryDatasets(datasetType='calexp', ...\<close>
      Request ''registry'' ''queryDimensionRecords'' ''_'',
          \<comment> \<open>382: print(list(registry.queryDimensionRecords(dim, where='visit...\<close>
      Request ''registry'' ''queryDimensionRecords'' ''record'',
          \<comment> \<open>421: (record,) = registry.queryDimensionRecords('visit', visit=9...\<close>
      Request ''registry'' ''queryDatasets'' ''ref'',
          \<comment> \<open>442: for ref in registry.queryDatasets('deepCoadd', visit=971990...\<close>
      Request ''registry'' ''queryDatasets'' ''datasetRefs'',
          \<comment> \<open>482: datasetRefs = registry.queryDatasets('calexp', where='visit...\<close>
      Request ''registry'' ''queryDatasets'' ''datasetRefs'',
          \<comment> \<open>541: datasetRefs = registry.queryDatasets('calexp', htm20=htm_id,\<close>
      Request ''registry'' ''queryDatasets'' ''src_ref'',
          \<comment> \<open>568: for i, src_ref in enumerate(registry.queryDatasets('src', h...\<close>
      ButlerGet ''butler'' ''calexp'' visit_detector_band ''calexp'',
          \<comment> \<open>602: calexp = butler.get('calexp', dataId=dataId)\<close>
      Render [''calexp''],
          \<comment> \<open>629: display.mtv(calexp)\<close>
      ButlerGet ''butler'' ''src'' visit_detector_band ''src'',
          \<comment> \<open>650: src = butler.get('src', dataId)\<close>
      Derive ''src'' [''src''],
          \<comment> \<open>653: src = src.copy(True)\<close>
      Render [''calexp''],
          \<comment> \<open>676: afw_display.mtv(calexp)\<close>
      Render [''src''],
          \<comment> \<open>682: afw_display.dot('+', s.getX(), s.getY(), ctype=afwDisplay.RED)\<close>
      Render [''src'']]
          \<comment> \<open>683: afw_display.dot('o', s.getX(), s.getY(), size=20, ctype='or...\<close>
     @ cutout_coadd_events ''butler'' ''cutout_image''
            \<comment> \<open>759: cutout_image = cutout_coadd(butler, ra, dec, datasetType='d...\<close>
     @ [Render [''cutout_image''],
            \<comment> \<open>774: afw_display.mtv(cutout_image.image)\<close>
        ButlerGet ''butler'' ''deepCoadd_forced_src_schema'' [] ''schema_coadd_src'',
            \<comment> \<open>795: schema_coadd_src = butler.get('deepCoadd_forced_src_schema')\<close>
        ButlerGet ''butler'' ''skyMap'' [] ''skymap'',
            \<comment> \<open>889: skymap = butler.get('skyMap')\<close>
        ButlerGet ''butler'' ''deepCoadd_forced_src'' tract_patch_band ''coadd_src'',
            \<comment> \<open>901: coadd_src = butler.get('deepCoadd_forced_src', coaddId)\<close>
        Derive ''coadd_src'' [''coadd_src''],
            \<comment> \<open>902: coadd_src = coadd_src.copy(True)\<close>
        Derive ''data'' [''coadd_src''],
            \<comment> \<open>931: data = coadd_src.asAstropy().to_pandas()\<close>
        Render [''data'']]
            \<comment> \<open>976: plt.plot(np.degrees(data['coord_ra'].values),\<close>"

text \<open>Intermediate TAP Queries (\<open>src/04_Intro_to_Butler.ipynb\<close>, second notebook of the file, from line 1015).\<close>

definition nb_intermediate_tap :: "event list" where
  "nb_intermediate_tap =
     [Obtain ''service'',
          \<comment> \<open>1155: service = get_tap_service()\<close>
      Request ''service'' ''search'' ''results'',
          \<comment> \<open>1179: results = service.search(query)\<close>
      Request ''service'' ''search'' ''results'',
          \<comment> \<open>1192: results = service.search(query).to_table()\<close>
      Request ''service'' ''search'' ''results'',
          \<comment> \<open>1247: results = service.search(query)\<close>
      Request ''service'' ''search'' ''results'',
          \<comment> \<open>1313: results = service.search(query)\<close>
      Request ''service'' ''search'' ''results1'',
          \<comment> \<open>1329: results1 = service.search(query, maxrec=max_rec)\<close>
      Request ''service'' ''search'' ''results'',
          \<comment> \<open>1393: results = service.search(query).to_table().to_pandas()\<close>
      Request ''service'' ''search'' ''results'',
          \<comment> \<open>1440: results = service.search(query).to_table().to_pandas()\<close>
      Request ''service'' ''search'' ''object_type_histogram'',
          \<comment> \<open>1493: object_type_histogram = service.search(query_histogram).to_...\<close>
      Derive ''data'' [''results''],
          \<comment> \<open>1540: data = dict(ra=results['ra'], dec=results['dec'],\<close>
      Derive ''source'' [''data''],
          \<comment> \<open>1548: source = ColumnDataSource(data=data)\<close>
      Derive ''source'' [''source'', ''results''],
          \<comment> \<open>1551: source.data['objectId'] = results['objectId']\<close>
      Derive ''source'' [''source'', ''results''],
          \<comment> \<open>1555: source.data['truth_type'] = results['truth_type'].map(objec...\<close>
      Derive ''p'' [''source''],
          \<comment> \<open>1612: p.circle(x='gmi', y='gmag', source=source,\<close>
      Render [''p''],
          \<comment> \<open>1619: show(p)\<close>
      Derive ''source'' [''source'', ''results''],
          \<comment> \<open>1638: source.data['rmi'] = results['mag_r_cModel'] - results['mag...\<close>
      Derive ''source'' [''source'', ''results''],
          \<comment> \<open>1639: source.data['gmr'] = results['mag_g_cModel'] - results['mag...\<close>
      Derive ''stars'' [''source''],
          \<comment> \<open>1650: stars = CDSView(source=source,\<close>
      Derive ''fig_spatial'' [''source'', ''stars''],
          \<comment> \<open>1680: fig_spatial.circle(x='target_ra', y='target_dec',\<close>
      Derive ''fig_cmag'' [''source'', ''stars''],
          \<comment> \<open>1691: fig_cmag.circle(x='gmr', y='gmag', source=source, view=stars,\<close>
      Derive ''fig_cc'' [''source'', ''stars''],
          \<comment> \<open>1701: fig_cc.circle(x='gmr', y='rmi', source=source, view=stars,\<close>
      Derive ''p'' [''fig_spatial'', ''fig_cmag'', ''fig_cc''],
          \<comment> \<open>1707: p = gridplot([[fig_spatial, fig_cmag, fig_cc]])\<close>
      Render [''p''],
          \<comment> \<open>1708: show(p)\<close>
      Derive ''source'' [''source'', ''results''],
          \<comment> \<open>1740: source.add(results['cModelFlux_r'] / results['flux_r'], nam...\<close>
      Derive ''source'' [''source'', ''results''],
          \<comment> \<open>1741: source.add(results['truth_mag_r'], name='truth_mag_r')\<close>
      Derive ''p'' [''source''],
          \<comment> \<open>1770: p.circle(x='truth_mag_r', y='flux_ratio',\<close>
      Render [''p''],
          \<comment> \<open>1781: show(p)\<close>
      JobSubmit ''service'' ''job'',
          \<comment> \<open>1810: job = service.submit_job(query)\<close>
      JobRun ''job'',
          \<comment> \<open>1827: job.run()\<close>
      JobWait ''job'',
          \<comment> \<open>1839: job.wait(phases=['COMPLETED', 'ERROR'])\<close>
      JobRaiseIfError ''job'',
          \<comment> \<open>1850: job.raise_if_error()\<close>
      JobFetch ''job'' ''async_results'',
          \<comment> \<open>1860: async_results = job.fetch_result()\<close>
      RetrieveQuery ''job'' ''retrieved_job'',
          \<comment> \<open>1883: retrieved_job = retrieve_query(job.url)\<close>
      JobFetch ''retrieved_job'' ''retrieved_results'',
          \<comment> \<open>1884: retrieved_results = retrieved_job.fetch_result()\<close>
      JobDelete ''job'']
          \<comment> \<open>1904: job.delete()\<close>"

text \<open>Single Star Lightcurve with the Butler (\<open>src/09_Single_Star_Lightcurve_with_Butler.ipynb\<close>).\<close>

definition nb_lightcurve :: "event list" where
  "nb_lightcurve =
     [Obtain ''butler'',
          \<comment> \<open>111: butler = dafButler.Butler(repo, collections=collection)\<close>
      Derive ''registry'' [''butler''],
          \<comment> \<open>112: registry = butler.registry\<close>
      Request ''registry'' ''queryDatasets'' ''datasetRefs'',
          \<comment> \<open>277: datasetRefs = registry.queryDatasets('src', htm20=htm_id,\<close>
      ReadFile ''data/timeseries_rband.fits'' ''tab_timeseries'',
          \<comment> \<open>533: tab_timeseries = fits.getdata('data/timeseries_rband.fits')\<close>
      Render [''tab_timeseries''],
          \<comment> \<open>570: plt.plot(tab_timeseries['mjd'], tab_timeseries['mag'], 'k.')\<close>
      Derive ''mjd_days'' [''tab_timeseries''],
          \<comment> \<open>622: mjd_days = np.array(tab_timeseries['mjd']) * u.day\<close>
      Derive ''mags'' [''tab_timeseries''],
          \<comment> \<open>623: mags = np.array(tab_timeseries['mag']) * u.mag\<close>
      Derive ''frequency'' [''mjd_days'', ''mags''],
          \<comment> \<open>635: frequency, power = LombScargle(mjd_days, mags).autopower(mi...\<close>
      Derive ''power'' [''mjd_days'', ''mags''],
          \<comment> \<open>635: frequency, power = LombScargle(mjd_days, mags).autopower(mi...\<close>
      Render [''frequency'', ''power''],
          \<comment> \<open>651: plt.plot(frequency, power)\<close>
      Render [''frequency'', ''power''],
          \<comment> \<open>657: plt.plot(1 / frequency, power)\<close>
      Derive ''select_peak'' [''power'', ''frequency''],
          \<comment> \<open>683: select_peak = (power > 0.4) & (np.abs(0.5 - (1 / frequency....\<close>
      Derive ''best_period'' [''frequency'', ''select_peak''],
          \<comment> \<open>698: best_period = np.mean(1 / frequency[select_peak])\<close>
      Derive ''mjd_norm'' [''mjd_days'', ''best_period''],
          \<comment> \<open>723: mjd_norm = (mjd_days - np.min(mjd_days)) / best_period\<close>
      Derive ''phase'' [''mjd_norm''],
          \<comment> \<open>726: phase = np.mod(mjd_norm, 1.0)\<close>
      Render [''phase'', ''mags'']]
          \<comment> \<open>745: plt.plot(phase, mags, 'k.')\<close>"

text \<open>Introduction to Source Detection (\<open>src/unnamed/part_000\<close>).\<close>

definition nb_source_detection :: "event list" where
  "nb_source_detection =
     [Obtain ''butler'',
          \<comment> \<open>152: butler = Butler(repo, collections=collection)\<close>
      ButlerGet ''butler'' ''calexp'' [''visit'', ''detector''] ''calexp'',
          \<comment> \<open>153: calexp = butler.get('calexp', **dataId)\<close>
      Derive ''calexp'' [''calexp''],
          \<comment> \<open>206: calexp.mask.removeAndClearMaskPlane('DETECTED')\<close>
      Render [''calexp''],
          \<comment> \<open>219: afw_display.mtv(calexp.image)\<close>
      ButlerGet ''butler'' ''calexpBackground'' [''visit'', ''detector''] ''bkgd'',
          \<comment> \<open>237: bkgd = butler.get('calexpBackground', **dataId)\<close>
      Render [''bkgd''],
          \<comment> \<open>256: afw_display.mtv(bkgd.getImage())\<close>
      Derive ''calexp'' [''calexp'', ''bkgd''],
          \<comment> \<open>274: calexp.maskedImage += bkgd.getImage()\<close>
      Render [''calexp''],
          \<comment> \<open>286: afw_display.mtv(calexp.image)\<close>
      Derive ''cutout'' [''calexp''],
          \<comment> \<open>330: cutout = calexp.Factory(calexp, bbox, origin=afwImage.LOCAL...\<close>
      Render [''cutout''],
          \<comment> \<open>343: afw_display.mtv(cutout.image)\<close>
      RunTask ''charImageTask'' [''calexp''] ''result'',
          \<comment> \<open>509: result = charImageTask.run(calexp)\<close>
      RunTask ''sourceDetectionTask'' [''calexp''] ''result'',
          \<comment> \<open>544: result = sourceDetectionTask.run(tab, calexp)\<close>
      Derive ''sources'' [''result''],
          \<comment> \<open>594: sources = result.sources\<close>
      RunTask ''sourceDeblendTask'' [''calexp'', ''sources''] ''sources'',
          \<comment> \<open>647: sourceDeblendTask.run(calexp, sources)\<close>
      RunTask ''sourceMeasurementTask'' [''sources'', ''calexp''] ''sources'',
          \<comment> \<open>650: sourceMeasurementTask.run(measCat=sources, exposure=calexp)\<close>
      Derive ''sources'' [''sources''],
          \<comment> \<open>667: sources = sources.copy(True)\<close>
      Derive ''image'' [''cutout''],
          \<comment> \<open>691: image = cutout.image\<close>
      Render [''image''],
          \<comment> \<open>696: afw_display.mtv(image)\<close>
      Render [''sources''],
          \<comment> \<open>703: afw_display.dot('+', s.getX(), s.getY(), ctype=afwDisplay.RED)\<close>
      Render [''sources''],
          \<comment> \<open>704: afw_display.dot('o', s.getX(), s.getY(), size=20, ctype='or...\<close>
      Derive ''fpset'' [''result''],
          \<comment> \<open>735: fpset = result.positive\<close>
      Derive ''fps'' [''fpset''],
          \<comment> \<open>736: fps = fpset.getFootprints()\<close>
      Derive ''fpset'' [''fpset'', ''calexp''],
          \<comment> \<open>783: fpset.makeHeavy(calexp.getMaskedImage())\<close>
      Derive ''hfps'' [''fpset''],
          \<comment> \<open>786: hfps = fpset.getFootprints()\<close>
      Render [''fps'', ''hfps''],
          \<comment> \<open>817: plt.imshow(fps[0].getSpans().unflatten(hfps[0].getImageArra...\<close>
      Render [''fps'', ''hfps'']]
          \<comment> \<open>867: im = plt.imshow(fps[0].getSpans().unflatten(hfps[0].getMask...\<close>"

text \<open>Interactive Image Visualization (\<open>src/unnamed/part_001\<close>, first notebook of the file).\<close>

definition nb_interactive_image :: "event list" where
  "nb_interactive_image =
     [Obtain ''butler'',
          \<comment> \<open>155: butler = Butler(repo, collections=collection)\<close>
      ButlerGet ''butler'' ''calexp'' visit_detector_band ''calexp'',
          \<comment> \<open>173: calexp = butler.get('calexp', calexpId)\<close>
      ButlerGet ''butler'' ''src'' visit_detector_band ''calexpSrc'',
          \<comment> \<open>187: calexpSrc = butler.get('src', **calexpId)\<close>
      ButlerGet ''butler'' ''deepCoadd'' tract_patch_band ''coadd'',
          \<comment> \<open>198: coadd = butler.get('deepCoadd', coaddId)\<close>
      ButlerGet ''butler'' ''deepCoadd_forced_src'' tract_patch_band ''coaddSrc'',
          \<comment> \<open>229: coaddSrc = butler.get('deepCoadd_forced_src', coaddId)\<close>
      Derive ''scaledImage'' [''calexp''],
          \<comment> \<open>271: scaledImage = transform(calexp.image.array)\<close>
      Derive ''scaledImage'' [''scaledImage''],
          \<comment> \<open>287: scaledImage = np.flipud(scaledImage)\<close>
      Derive ''bounds_img'' [''calexp''],
          \<comment> \<open>288: bounds_img = (0, 0, calexp.getDimensions()[0], calexp.getDi...\<close>
      Derive ''img'' [''scaledImage'', ''bounds_img''],
          \<comment> \<open>334: img = hv.Image(scaledImage, bounds=bounds_img,\<close>
      Render [''img''],
          \<comment> \<open>347: rasterize(img)\<close>
      Derive ''coords'' [''calexpSrc''],
          \<comment> \<open>365: coords = calexpSrc.getX(), calexpSrc.getY()\<close>
      Derive ''detections'' [''coords''],
          \<comment> \<open>395: detections = hv.Points(coords).opts(\<close>
      Render [''img'', ''detections''],
          \<comment> \<open>414: rasterize(img).opts(tools=[]) * detections.opts(tools=[detH...\<close>
      Derive ''box'' [''img''],
          \<comment> \<open>447: box = streams.BoundsXY(source=img, bounds=boundsxy)\<close>
      Derive ''dynamicMap'' [''box''],
          \<comment> \<open>448: dynamicMap = hv.DynamicMap(lambda bounds: hv.Bounds(bounds)...\<close>
      Render [''img'', ''dynamicMap''],
          \<comment> \<open>458: rasterize(img) * dynamicMap\<close>
      Derive ''posxy'' [''img'', ''calexp''],
          \<comment> \<open>490: posxy = hv.streams.Tap(source=img, x=0.5 * calexp.getDimens...\<close>
      Derive ''marker'' [''posxy''],
          \<comment> \<open>492: marker = hv.DynamicMap(lambda x, y: hv.Points([(x, y)]), st...\<close>
      Render [''img'', ''marker'']]
          \<comment> \<open>493: rasterize(img)* marker.opts(color='white', marker='x', size...\<close>"

text \<open>Comparing Object and Truth Tables (\<open>src/unnamed/part_001\<close>, second notebook, from line 551).\<close>

definition nb_object_truth :: "event list" where
  "nb_object_truth =
     [Obtain ''service'',
          \<comment> \<open>660: service = get_tap_service()\<close>
      Request ''service'' ''search'' ''results'',
          \<comment> \<open>680: results = service.search('SELECT description,\<close>
      Request ''service'' ''search'' ''results'',
          \<comment> \<open>705: results = service.search('SELECT column_name, datatype, des...\<close>
      Request ''service'' ''search'' ''results'',
          \<comment> \<open>723: results = service.search('SELECT column_name, datatype, des...\<close>
      Request ''service'' ''search'' ''truth_plus_meas'',
          \<comment> \<open>778: truth_plus_meas = service.search(query)\<close>
      Derive ''star'' [''truth_plus_meas''],
          \<comment> \<open>864: star = np.where(truth_plus_meas['truth_type'] == 2)\<close>
      Derive ''gx'' [''truth_plus_meas''],
          \<comment> \<open>865: gx = np.where(truth_plus_meas['truth_type'] == 1)\<close>
      Render [''truth_plus_meas'', ''gx''],
          \<comment> \<open>887: plt.plot(truth_plus_meas['mag_g_cModel'][gx] - truth_plus_m...\<close>
      Render [''truth_plus_meas'', ''star''],
          \<comment> \<open>889: plt.plot(truth_plus_meas['mag_g_cModel'][star] - truth_plus...\<close>
      Render [''truth_plus_meas'', ''gx''],
          \<comment> \<open>899: plt.plot(truth_plus_meas['mag_g_cModel'][gx] - truth_plus_m...\<close>
      Render [''truth_plus_meas'', ''star''],
          \<comment> \<open>902: plt.plot(truth_plus_meas['mag_g_cModel'][star] - truth_plus...\<close>
      Render [''truth_plus_meas'', ''gx''],
          \<comment> \<open>935: plt.plot(truth_plus_meas['truth_mag_r'][gx],\<close>
      Render [''truth_plus_meas'', ''star'']]
          \<comment> \<open>938: plt.plot(truth_plus_meas['truth_mag_r'][star],\<close>"

text \<open>Displaying images using Firefly (\<open>src/unnamed/part_001\<close>, third notebook, from line 983).\<close>

definition nb_firefly :: "event list" where
  "nb_firefly =
     [Obtain ''butler'',
          \<comment> \<open>1097: butler = Butler(repo, collections=collection)\<close>
      ButlerGet ''butler'' ''calexp'' visit_detector_band ''calexp'',
          \<comment> \<open>1100: calexp = butler.get('calexp', **dataId)\<close>
      Render [''calexp''],
          \<comment> \<open>1149: afw_display.mtv(calexp)\<close>
      ButlerGet ''butler'' ''src'' visit_detector_band ''src'',
          \<comment> \<open>1256: src = butler.get('src', **dataId)\<close>
      Render [''src''],
          \<comment> \<open>1308: afw_display.dot('o', record.getX(), record.getY(), size=20,...\<close>
      ButlerGet ''butler'' ''deepCoadd_calexp'' tract_patch_band ''coadd_calexp'',
          \<comment> \<open>1347: coadd_calexp = butler.get('deepCoadd_calexp', **dataId_coadd)\<close>
      ButlerGet ''butler'' ''deepCoadd_forced_src'' tract_patch_band ''forced_src'',
          \<comment> \<open>1363: forced_src = butler.get('deepCoadd_forced_src', **dataId_co...\<close>
      ButlerGet ''butler'' ''deepCoadd_ref'' tract_patch_band ''refTable'',
          \<comment> \<open>1364: refTable = butler.get('deepCoadd_ref', **dataId_coadd)\<close>
      Render [''coadd_calexp''],
          \<comment> \<open>1374: afw_display.mtv(coadd_calexp)\<close>
      Derive ''xy0'' [''coadd_calexp''],
          \<comment> \<open>1403: xy0 = coadd_calexp.getXY0()\<close>
      Derive ''xPos'' [''refTable'', ''xy0''],
          \<comment> \<open>1404: xPos = refTable['base_SdssCentroid_x'] - xy0.getX()\<close>
      Derive ''yPos'' [''refTable'', ''xy0''],
          \<comment> \<open>1405: yPos = refTable['base_SdssCentroid_y'] - xy0.getY()\<close>
      Derive ''boxSelect'' [''xPos'', ''yPos''],
          \<comment> \<open>1407: boxSelect = (xPos < 1000) & (yPos < 1000)\<close>
      Derive ''isPrimary'' [''refTable''],
          \<comment> \<open>1409: isPrimary = refTable['detect_isPrimary']\<close>
      Derive ''isStellar'' [''refTable''],
          \<comment> \<open>1411: isStellar = refTable['base_ClassificationExtendedness_value...\<close>
      Render [''forced_src'', ''boxSelect'', ''isPrimary'', ''isStellar''],
          \<comment> \<open>1424: afw_display.dot('o', record.getX(), record.getY(), size=20,...\<close>
      Render [''forced_src'', ''boxSelect'', ''isPrimary'', ''isStellar'']]
          \<comment> \<open>1437: afw_display.dot('o', record.getX(), record.getY(), size=20,...\<close>"

text \<open>Introduction to Jupyter Notebooks for Data Preview 0 (\<open>src/unnamed/part_001\<close>, fourth notebook, from line 1480).\<close>

definition nb_intro_jupyter :: "event list" where
  "nb_intro_jupyter =
     [Obtain ''service'',
          \<comment> \<open>1746: service = get_tap_service()\<close>
      Request ''service'' ''search'' ''results'',
          \<comment> \<open>1849: results = service.search('SELECT ra, dec, mag_g, mag_r, mag...\<close>
      Request ''service'' ''search'' ''results'',
          \<comment> \<open>1874: results = service.search('SELECT ra, dec, mag_g, mag_r, mag...\<close>
      Derive ''data'' [''results''],
          \<comment> \<open>1896: data = results.to_table().to_pandas()\<close>
      Render [''data''],
          \<comment> \<open>1960: plt.plot( data['mag_r'].values-data['mag_i'].values, data['...\<close>
      Obtain ''butler'',
          \<comment> \<open>2047: butler = dafButler.Butler(repo,collections=collection)\<close>
      ButlerGet ''butler'' ''skyMap'' [] ''skymap'',
          \<comment> \<open>2086: skymap = butler.get('skyMap')\<close>
      ButlerGet ''butler'' ''deepCoadd'' [''band'', ''tract'', ''patch''] ''my_deepCoadd'',
          \<comment> \<open>2123: my_deepCoadd = butler.get('deepCoadd',dataId=dataId)\<close>
      Render [''my_deepCoadd'']]
          \<comment> \<open>2165: afw_display.mtv(my_deepCoadd.image) # display the image dat...\<close>"

text \<open>Displaying images using the afw library (\<open>src/unnamed/part_002\<close>).\<close>

definition nb_afw_display :: "event list" where
  "nb_afw_display =
     [Obtain ''butler'',
          \<comment> \<open>210: butler = Butler(repo, collections=collection)\<close>
      ButlerGet ''butler'' ''calexp'' visit_detector_band ''calexp'',
          \<comment> \<open>213: calexp = butler.get('calexp', **dataId)\<close>
      Render [''calexp''],
          \<comment> \<open>264: display.mtv(calexp.image)\<close>
      Derive ''calexp_extent'' [''calexp''],
          \<comment> \<open>292: calexp_extent = (calexp.getBBox().beginX, calexp.getBBox()....\<close>
      Render [''calexp'', ''calexp_extent''],
          \<comment> \<open>297: im = plt.imshow(calexp.image.array, cmap='gray', vmin=-200....\<close>
      Render [''calexp''],
          \<comment> \<open>329: display1.mtv(calexp.image)\<close>
      Render [''calexp''],
          \<comment> \<open>332: display2.mtv(calexp.mask)\<close>
      Render [''calexp''],
          \<comment> \<open>354: display.mtv(calexp.maskedImage)\<close>
      Render [''calexp''],
          \<comment> \<open>404: afw_display.mtv(calexp)\<close>
      ButlerGet ''butler'' ''deepCoadd_calexp'' tract_patch_band ''coadd_calexp'',
          \<comment> \<open>574: coadd_calexp = butler.get('deepCoadd_calexp', **dataId)\<close>
      Render [''coadd_calexp'']]
          \<comment> \<open>590: display.mtv(coadd_calexp.image)\<close>
     @ cutout_coadd_events ''butler'' ''cutout_image''
            \<comment> \<open>647: cutout_image = cutout_coadd(butler, ra, dec, datasetType='d...\<close>
     @ [Render [''cutout_image'']]
            \<comment> \<open>661: afw_display.mtv(cutout_image.image)\<close>
     @ cutout_coadd_events ''butler'' ''cutout_image_g''
            \<comment> \<open>768: cutout_image_g = cutout_coadd(butler, ra, dec, band='g',\<close>
     @ cutout_coadd_events ''butler'' ''cutout_image_r''
            \<comment> \<open>770: cutout_image_r = cutout_coadd(butler, ra, dec, band='r',\<close>
     @ cutout_coadd_events ''butler'' ''cutout_image_i''
            \<comment> \<open>772: cutout_image_i = cutout_coadd(butler, ra, dec, band='i',\<close>
     @ [Derive ''coadds'' [''cutout_image_g'', ''cutout_image_r'', ''cutout_image_i''],
            \<comment> \<open>776: coadds = [cutout_image_g, cutout_image_r, cutout_image_i]\<close>
        Derive ''coadds'' [''coadds''],
            \<comment> \<open>777: coadds = MultibandExposure.fromExposures(['g', 'r', 'i'], c...\<close>
        Derive ''rgb_original'' [''coadds''],
            \<comment> \<open>798: rgb_original = createRGB(coadds.image, bgr=['g', 'r', 'i'],...\<close>
        Render [''rgb_original''],
            \<comment> \<open>799: ax[0].imshow(rgb_original, origin='lower')\<close>
        Derive ''rgb_scaled'' [''coadds''],
            \<comment> \<open>804: rgb_scaled = createRGB(coadds.image, bgr=['g', 'r', 'i'],\<close>
        Render [''rgb_scaled'']]
            \<comment> \<open>806: ax[1].imshow(rgb_scaled, origin='lower')\<close>"

definition notebooks :: "event list list" where
  "notebooks = [nb_intro_butler, nb_intermediate_tap, nb_lightcurve, nb_source_detection,
                nb_interactive_image, nb_object_truth, nb_firefly, nb_intro_jupyter,
                nb_afw_display]"

subsection \<open>Order of the steps\<close>












subsection \<open>State held by the remote data services\<close>

text \<open>
  The data services are the Butler repository and the TAP service. Their data is only
  read: \<open>get\<close>, the registry queries and \<open>search\<close> return data and change nothing. The
  TAP service also holds the asynchronous jobs of its clients. As the notebook narrates
  it, \<open>submit_job\<close> creates a job in phase \<open>PENDING\<close> (the cell says that this step does not run the query yet), \<open>run\<close> starts it, \<open>wait\<close> returns when it has finished, and \<open>delete\<close> removes
  the job and the results from the server. \<open>effect\<close> is what one event does to the
  list of jobs the service holds, for a run in which no call raises. Display servers
  (Firefly) are not data services and are left out.
\<close>

datatype phase = PENDING | EXECUTING | COMPLETED

type_synonym jobs = "(var \<times> phase) list"

definition set_phase :: "var \<Rightarrow> phase \<Rightarrow> jobs \<Rightarrow> jobs" where
  "set_phase j p js = map (\<lambda>(k, q). if k = j then (k, p) else (k, q)) js"





subsection \<open>Keys of the \<open>dataId\<close> dictionaries and file access\<close>

definition dataId_keys :: "string list" where
  "dataId_keys = [''visit'', ''detector'', ''band'', ''tract'', ''patch'']"

fun butler_get_keys :: "event \<Rightarrow> string list" where
  "butler_get_keys (ButlerGet h t ks v) = ks"
| "butler_get_keys e = []"



subsection \<open>Concrete library behaviour for running the functions\<close>







section \<open>Theorems\<close>

subsection \<open>Auxiliary facts\<close>





lemma bbox_by_include_eq:
  "0 < w \<Longrightarrow> 0 < h \<Longrightarrow>
   bbox_by_include x y w h = \<lparr>minimum = (x, y), dimensions = (w + 1, h + 1)\<rparr>"
  by (simp add: bbox_by_include_def Box2I_include_def Box2I_default_def isEmpty_def
      getMax_def include_axis_def)

lemma bbox_by_extent_eq:
  "0 < w \<Longrightarrow> 0 < h \<Longrightarrow>
   bbox_by_extent x y w h = \<lparr>minimum = (x, y), dimensions = (w, h)\<rparr>"
  by (simp add: bbox_by_extent_def Box2I_of_def flip_axis_def)















lemma set_phase_keys: "map fst (set_phase j p js) = map fst js"
  by (induction js) (auto simp: set_phase_def)




lemmas notebook_defs =
  nb_intro_butler_def nb_intermediate_tap_def nb_lightcurve_def nb_source_detection_def
  nb_interactive_image_def nb_object_truth_def nb_firefly_def nb_intro_jupyter_def
  nb_afw_display_def cutout_coadd_events_def visit_detector_band_def tract_patch_band_def



lemma filter_same_key:
  "distinct (map f xs) \<Longrightarrow> k \<in> set xs \<Longrightarrow> filter (\<lambda>x. f k = f x) xs = [k]"
proof (induction xs)
  case Nil
  then show ?case by simp
next
  case (Cons x xs)
  show ?case
  proof (cases "k = x")
    case True
    have "filter (\<lambda>y. f x = f y) xs = []"
      using Cons.prems(1) by (auto simp: filter_empty_conv)
    with True show ?thesis by simp
  next
    case False
    with Cons.prems have k: "k \<in> set xs" and d: "distinct (map f xs)" by auto
    from Cons.prems(1) have "f x \<notin> f ` set xs" by simp
    with k have "f k \<noteq> f x" by (metis imageI)
    with Cons.IH[OF d k] show ?thesis by simp
  qed
qed

lemma sorted_rows_unique:
  assumes "mset ys = mset xs" "sorted (map f ys)" "distinct (map f xs)"
  shows "sort_key f xs = ys"
proof (rule properties_for_sort_key)
  show "mset ys = mset xs" by fact
  show "sorted (map f ys)" by fact
  fix k
  assume k: "k \<in> set ys"
  have "mset (map f ys) = mset (map f xs)"
    using assms(1) by simp
  then have dy: "distinct (map f ys)"
    using assms(3) mset_eq_imp_distinct_iff by blast
  have kx: "k \<in> set xs"
    using k assms(1) mset_eq_setD by blast
  show "filter (\<lambda>x. f k = f x) ys = filter (\<lambda>x. f k = f x) xs"
    using filter_same_key[OF dy k] filter_same_key[OF assms(3) kx] by simp
qed









subsection \<open>The claims\<close>










text \<open>
  C5. Every \<open>dataId\<close> dictionary that a notebook passes to \<open>butler.get\<close>, as a dictionary
  or as keyword arguments, the \<open>coaddId\<close> built inside \<open>cutout_coadd\<close> included, has its
  keys among \<open>visit\<close>, \<open>detector\<close>, \<open>band\<close>, \<open>tract\<close> and \<open>patch\<close>. (The \<open>parameters\<close>
  dictionary of \<open>cutout_coadd\<close>, with its key \<open>bbox\<close>, is not a \<open>dataId\<close>.)
\<close>

theorem dataId_keys_allowed:
  "\<forall>nb\<in>set notebooks. \<forall>e\<in>set nb. set (butler_get_keys e) \<subseteq> set dataId_keys"
  by (simp add: notebooks_def notebook_defs dataId_keys_def)

theorem dataId_keys_allowed_witness:
  "nb_source_detection \<in> set notebooks
   \<and> ButlerGet ''butler'' ''calexp'' [''visit'', ''detector''] ''calexp''
       \<in> set nb_source_detection
   \<and> set [''visit'', ''detector''] \<subseteq> set dataId_keys"
proof -
  have n: "nb_source_detection \<in> set notebooks"
    by (simp add: notebooks_def)
  have m: "ButlerGet ''butler'' ''calexp'' [''visit'', ''detector''] ''calexp''
             \<in> set nb_source_detection"
    by (simp add: nb_source_detection_def)
  from dataId_keys_allowed[rule_format, OF n m]
  have k: "set [''visit'', ''detector''] \<subseteq> set dataId_keys"
    by simp
  show ?thesis using n m k by simp
qed






text \<open>
  C8. The two definitions of \<open>cutout_coadd\<close>, in the Butler notebook and in the
  image-display notebook, are the same function: for every library behaviour, every
  butler and all arguments they make the same calls in the same order, build the same
  bounding box and the same \<open>coaddId\<close>, and return the same image or raise the same
  exception.
\<close>

theorem cutout_coadd_definitions_agree:
  "cutout_coadd_butler api butler ra dec band datasetType skymap cutoutSideLength
   = cutout_coadd_display api butler ra dec band datasetType skymap cutoutSideLength"
  by (simp add: cutout_coadd_butler_def cutout_coadd_display_def)

text \<open>
  C9. The claim says that the box built with two \<open>include\<close> calls equals
  \<open>Box2I(Point2I(xmin, ymin), Extent2I(width, height))\<close>. With the notebook's values
  (\<open>xmin = 1500\<close>, \<open>ymin = 1900\<close>, \<open>width = height = 400\<close>) the cell's box spans the pixels
  1500..1900 by 1900..2300, that is 401 by 401, because both included corners are inside
  the box; the box of the commented line is 400 by 400. The two boxes differ.
\<close>

theorem bbox_include_off_by_one:
  "bbox = \<lparr>minimum = (1500, 1900), dimensions = (401, 401)\<rparr>
   \<and> bbox_alternative = \<lparr>minimum = (1500, 1900), dimensions = (400, 400)\<rparr>
   \<and> getWidth bbox = 401 \<and> getWidth bbox_alternative = 400
   \<and> getHeight bbox = 401 \<and> getHeight bbox_alternative = 400
   \<and> bbox \<noteq> bbox_alternative"
  by (simp add: bbox_def bbox_alternative_def xmin_def ymin_def x_target_def y_target_def
      width_def height_def bbox_by_include_eq bbox_by_extent_eq getWidth_def getHeight_def)



end
